theory Spec2Isabelle
  imports Complex_Main "HOL-Library.Log_Nat"
begin

section \<open>ChainSonar: the contract activity pulse\<close>

text \<open>
  A shallow embedding of \<^verbatim>\<open>analyze_contract_pulse\<close> of
  \<^verbatim>\<open>contract_activity_pulse.py\<close>. The function reads the chain through a
  \<^verbatim>\<open>Web3\<close> object, mutates two local accumulators inside a loop with a
  \<^verbatim>\<open>try/except\<close> body, prints its findings and returns nothing. The embedding
  keeps all of this explicit: the provider is a record of functions whose calls may raise,
  the accumulators are a state record, the calls made and the lines printed are collected
  in order in that state, and a raised exception travels next to the state it leaves behind.
\<close>

subsection \<open>Exceptions\<close>

text \<open>
  The source distinguishes three kinds of raised objects: \<^verbatim>\<open>ValueError\<close>
  (caught around the canonicalisation of the contract address, lines 46 to 51), any other
  instance of \<^verbatim>\<open>Exception\<close> (caught, like \<^verbatim>\<open>ValueError\<close>, by the
  handler of the loop body, line 80), and objects outside \<^verbatim>\<open>Exception\<close>
  such as \<^verbatim>\<open>KeyboardInterrupt\<close>, which no handler of the function catches.
  \<^verbatim>\<open>ZeroDivisionError\<close> is what Python's \<^verbatim>\<open>/\<close> raises on a zero
  divisor, \<^verbatim>\<open>OverflowError\<close> what \<^verbatim>\<open>len\<close> raises on a range too long
  for a machine word; both are instances of \<^verbatim>\<open>Exception\<close>. The strings are the
  messages.
\<close>

datatype py_exception =
    ValueError string
  | ZeroDivisionError
  | OverflowError
  | OtherException string
  | KeyboardInterrupt

fun is_ValueError :: "py_exception \<Rightarrow> bool" where
  "is_ValueError (ValueError m) = True"
| "is_ValueError e = False"

fun is_Exception :: "py_exception \<Rightarrow> bool" where
  "is_Exception KeyboardInterrupt = False"
| "is_Exception e = True"

subsection \<open>The provider and its data\<close>

text \<open>
  A transaction as the loop reads it: \<^verbatim>\<open>tx['to']\<close> is an address string or
  \<^verbatim>\<open>None\<close> (contract creation), \<^verbatim>\<open>tx['from']\<close> an address string.
\<close>

record tx =
  tx_to :: "string option"
  tx_from :: string

text \<open>
  The three members of the \<^verbatim>\<open>Web3\<close> object the function uses:
  \<^verbatim>\<open>w3.to_checksum_address\<close>, the property \<^verbatim>\<open>w3.eth.block_number\<close> and
  \<^verbatim>\<open>w3.eth.get_block(n, full_transactions=True)\<close>, of which only
  \<^verbatim>\<open>.transactions\<close> is read. Each may raise (\<open>Inl\<close>).
\<close>

record provider =
  to_checksum_address :: "string \<Rightarrow> py_exception + string"
  block_number :: "py_exception + int"
  get_block :: "int \<Rightarrow> py_exception + tx list"

subsection \<open>Effects and state\<close>

datatype verdict = Viral | Healthy | Community_sustained

text \<open>
  What the function prints, by the values interpolated into each message (colour codes and
  wording left out): the address error of line 50, the banner of lines 56 to 58, the
  per-block warning of line 82, the figures of lines 108 to 118 (two integers and the two
  ratios, each the rational that the Python number denotes) and the conclusion of lines
  120 to 125.
\<close>

datatype printed =
    Invalid_address_format
  | Scan_banner string int int int
  | Block_failure int py_exception
  | Results int int rat rat
  | Conclusion verdict

datatype effect =
    Call_to_checksum_address string
  | Read_block_number
  | Call_get_block int
  | Print printed

text \<open>
  The locals the loop mutates (lines 64 and 65), with the effects so far. Python's
  \<^verbatim>\<open>int\<close> is unbounded (\<open>int\<close>); a Python \<^verbatim>\<open>set\<close> of strings is a
  \<open>string set\<close>, which the loop keeps finite. The local
  \<^verbatim>\<open>all_time_interactors\<close> of line 61 is never used again and is left out.
\<close>

record scan_state =
  period_transactions :: int
  period_unique_interactors :: "string set"
  effects :: "effect list"

definition emit :: "effect \<Rightarrow> scan_state \<Rightarrow> scan_state" where
  "emit ev s = s\<lparr>effects := effects s @ [ev]\<rparr>"

subsection \<open>The loop\<close>

text \<open>
  Lines 76 to 79, for one transaction. \<^verbatim>\<open>tx['to'] and ...\<close> tests Python
  truthiness first: \<^verbatim>\<open>None\<close> and the empty string are falsy and end the test
  without a call. The counter is incremented before the sender is canonicalised, so an
  exception raised there leaves the increment in place. The result is the state reached
  and the exception in flight, if any.
\<close>

definition process_tx ::
  "provider \<Rightarrow> string \<Rightarrow> tx \<Rightarrow> scan_state \<Rightarrow> scan_state \<times> py_exception option" where
  "process_tx w3 target_address t s =
     (case tx_to t of
        None \<Rightarrow> (s, None)
      | Some a \<Rightarrow>
          if a = [] then (s, None)
          else
            let s1 = emit (Call_to_checksum_address a) s in
            (case to_checksum_address w3 a of
               Inl e \<Rightarrow> (s1, Some e)
             | Inr c \<Rightarrow>
                 if c = target_address then
                   let s2 = s1\<lparr>period_transactions := period_transactions s1 + 1\<rparr>;
                       s3 = emit (Call_to_checksum_address (tx_from t)) s2
                   in (case to_checksum_address w3 (tx_from t) of
                         Inl e \<Rightarrow> (s3, Some e)
                       | Inr from_address \<Rightarrow>
                           (s3\<lparr>period_unique_interactors :=
                                 insert from_address (period_unique_interactors s3)\<rparr>, None))
                 else (s1, None)))"

text \<open>The inner \<^verbatim>\<open>for tx in block.transactions\<close>: an exception ends it.\<close>

fun process_transactions ::
  "provider \<Rightarrow> string \<Rightarrow> tx list \<Rightarrow> scan_state \<Rightarrow> scan_state \<times> py_exception option" where
  "process_transactions w3 target_address [] s = (s, None)"
| "process_transactions w3 target_address (t # ts) s =
     (case process_tx w3 target_address t s of
        (s', Some e) \<Rightarrow> (s', Some e)
      | (s', None) \<Rightarrow> process_transactions w3 target_address ts s')"

text \<open>
  The body of the outer loop, lines 73 to 83: fetch, process, and on any
  \<^verbatim>\<open>Exception\<close> write the warning and go on. Anything else stays in flight.
\<close>

definition scan_block ::
  "provider \<Rightarrow> string \<Rightarrow> int \<Rightarrow> scan_state \<Rightarrow> scan_state \<times> py_exception option" where
  "scan_block w3 target_address block_num s =
     (let s1 = emit (Call_get_block block_num) s in
      case (case get_block w3 block_num of
              Inl e \<Rightarrow> (s1, Some e)
            | Inr transactions \<Rightarrow> process_transactions w3 target_address transactions s1) of
        (s2, None) \<Rightarrow> (s2, None)
      | (s2, Some e) \<Rightarrow>
          if is_Exception e then (emit (Print (Block_failure block_num e)) s2, None)
          else (s2, Some e))"

text \<open>
  The outer \<^verbatim>\<open>for block_num in pbar\<close>, over the block numbers the progress bar
  yields.
\<close>

fun scan_blocks ::
  "provider \<Rightarrow> string \<Rightarrow> int list \<Rightarrow> scan_state \<Rightarrow> scan_state \<times> py_exception option" where
  "scan_blocks w3 target_address [] s = (s, None)"
| "scan_blocks w3 target_address (block_num # rest) s =
     (case scan_block w3 target_address block_num s of
        (s', Some e) \<Rightarrow> (s', Some e)
      | (s', None) \<Rightarrow> scan_blocks w3 target_address rest s')"

text \<open>Python's \<^verbatim>\<open>range(a, b)\<close>: the integers from \<open>a\<close> up to, not including, \<open>b\<close>.\<close>

definition py_range :: "int \<Rightarrow> int \<Rightarrow> int list" where
  "py_range a b = [a..b - 1]"

text \<open>Lines 54 and 68: the block numbers the loop visits.\<close>

definition block_window :: "int \<Rightarrow> int \<Rightarrow> int list" where
  "block_window latest_block_number num_blocks =
     (let start_block = latest_block_number - num_blocks + 1
      in py_range start_block (latest_block_number + 1))"

text \<open>
  Line 68 wraps the range in \<^verbatim>\<open>tqdm\<close>. When the bar is created it asks the range
  for its length; \<^verbatim>\<open>len\<close> raises \<^verbatim>\<open>OverflowError\<close> when the length
  exceeds \<^verbatim>\<open>sys.maxsize\<close> (\<^verbatim>\<open>2**63 - 1\<close> on 64-bit CPython), and
  \<^verbatim>\<open>tqdm\<close>, which only guards against \<^verbatim>\<open>TypeError\<close> and
  \<^verbatim>\<open>AttributeError\<close> there, lets it pass. Line 68 is outside every
  \<^verbatim>\<open>try\<close>, so the exception leaves the function. Otherwise the bar yields the
  elements of the range in order; what it draws is decoration.
\<close>

definition sys_maxsize :: int where
  "sys_maxsize = 2 ^ 63 - 1"

definition py_len :: "int list \<Rightarrow> py_exception + int" where
  "py_len xs =
     (if sys_maxsize < int (length xs) then Inl OverflowError else Inr (int (length xs)))"

definition tqdm :: "int list \<Rightarrow> py_exception + int list" where
  "tqdm iterable = (case py_len iterable of Inl e \<Rightarrow> Inl e | Inr bar_total \<Rightarrow> Inr iterable)"

subsection \<open>Floating point\<close>

text \<open>
  A Python \<^verbatim>\<open>float\<close> is an IEEE 754 binary64 number, here the rational it
  denotes. \<open>round_to_double\<close> is the rounding every operation ends with: to the nearest
  number with a 53-bit significand, ties to the even significand, with the fixed spacing
  \<^verbatim>\<open>2**-1074\<close> of the subnormal numbers at the bottom. For positive \<open>x\<close>,
  \<open>binary_exponent x\<close> is the \<open>e\<close> with \<^verbatim>\<open>2**e <= x < 2**(e+1)\<close>. The top of
  the range is left out: Python raises \<^verbatim>\<open>OverflowError\<close> for a quotient of
  \<^verbatim>\<open>2**1024\<close> or more, which would take a counter of as many transactions.
\<close>

definition round_half_even :: "rat \<Rightarrow> int" where
  "round_half_even x =
     (let f = \<lfloor>x\<rfloor>; r = x - of_int f in
      if r < 1 / 2 then f
      else if 1 / 2 < r then f + 1
      else if even f then f else f + 1)"

definition pow2 :: "int \<Rightarrow> rat" where
  "pow2 k = (if 0 \<le> k then 2 ^ nat k else 1 / 2 ^ nat (- k))"

definition binary_exponent :: "rat \<Rightarrow> int" where
  "binary_exponent x =
     (if 1 \<le> x then bitlen \<lfloor>x\<rfloor> - 1 else - bitlen (\<lceil>1 / x\<rceil> - 1))"

definition round_to_double :: "rat \<Rightarrow> rat" where
  "round_to_double x =
     (if x = 0 then 0
      else
        let a = \<bar>x\<bar>;
            ulp = pow2 (max (binary_exponent a - 52) (- 1074));
            m = of_int (round_half_even (a / ulp)) * ulp
        in if x < 0 then - m else m)"

subsection \<open>The metrics\<close>

text \<open>
  Python's \<^verbatim>\<open>/\<close> on two \<^verbatim>\<open>int\<close>s raises on a zero divisor and otherwise
  returns the float nearest to the exact quotient of the two integers. A float times an
  \<^verbatim>\<open>int\<close> is the float nearest to the exact product.
\<close>

definition py_truediv :: "int \<Rightarrow> int \<Rightarrow> py_exception + rat" where
  "py_truediv a b =
     (if b = 0 then Inl ZeroDivisionError else Inr (round_to_double (of_int a / of_int b)))"

definition py_float_mul :: "rat \<Rightarrow> int \<Rightarrow> rat" where
  "py_float_mul x n = round_to_double (x * of_int n)"

definition len_set :: "string set \<Rightarrow> int" where
  "len_set A = int (card A)"

text \<open>Line 96.\<close>

definition engagement_ratio :: "scan_state \<Rightarrow> py_exception + rat" where
  "engagement_ratio s =
     (let total_unique_wallets = len_set (period_unique_interactors s) in
      if total_unique_wallets > 0
      then py_truediv (period_transactions s) total_unique_wallets
      else Inr 0)"

text \<open>Lines 102 to 105; \<^verbatim>\<open>known_wallets\<close> is the empty set of line 102.\<close>

definition adoption_velocity_index :: "scan_state \<Rightarrow> py_exception + rat" where
  "adoption_velocity_index s =
     (let total_unique_wallets = len_set (period_unique_interactors s);
          known_wallets = {};
          newly_discovered_wallets = period_unique_interactors s - known_wallets in
      if total_unique_wallets > 0
      then (case py_truediv (len_set newly_discovered_wallets) total_unique_wallets of
              Inl e \<Rightarrow> Inl e
            | Inr q \<Rightarrow> Inr (py_float_mul q 100))
      else Inr 0)"

text \<open>Lines 120 to 125.\<close>

definition conclusion :: "rat \<Rightarrow> verdict" where
  "conclusion adoption =
     (if adoption > 75 then Viral
      else if adoption > 50 then Healthy
      else Community_sustained)"

subsection \<open>The function\<close>

text \<open>
  How a call ends: every path of the source that does not raise ends in a bare
  \<^verbatim>\<open>return\<close> or falls off the end of the function, so the value handed to the
  caller is \<^verbatim>\<open>None\<close>.
\<close>

datatype completion = Returns_None | Raises py_exception

record run =
  completion :: completion
  trace :: "effect list"

definition initial_state :: "string \<Rightarrow> string \<Rightarrow> int \<Rightarrow> int \<Rightarrow> scan_state" where
  "initial_state contract_address target_address latest_block_number num_blocks =
     \<lparr>period_transactions = 0,
      period_unique_interactors = {},
      effects = [Call_to_checksum_address contract_address, Read_block_number,
                 Print (Scan_banner target_address num_blocks
                          (latest_block_number - num_blocks + 1) latest_block_number)]\<rparr>"

text \<open>
  Lines 93 to 125, from the state the loop leaves: the two metrics, then the printed
  figures and the conclusion.
\<close>

definition report :: "scan_state \<Rightarrow> run" where
  "report s =
     (case engagement_ratio s of
        Inl e \<Rightarrow> \<lparr>completion = Raises e, trace = effects s\<rparr>
      | Inr engagement \<Rightarrow>
          (case adoption_velocity_index s of
             Inl e \<Rightarrow> \<lparr>completion = Raises e, trace = effects s\<rparr>
           | Inr adoption \<Rightarrow>
               \<lparr>completion = Returns_None,
                trace = effects s @
                  [Print (Results (period_transactions s)
                            (len_set (period_unique_interactors s)) engagement adoption),
                   Print (Conclusion (conclusion adoption))]\<rparr>))"

definition analyze_contract_pulse :: "provider \<Rightarrow> string \<Rightarrow> int \<Rightarrow> run" where
  "analyze_contract_pulse w3 contract_address num_blocks =
     (case to_checksum_address w3 contract_address of
        Inl e \<Rightarrow>
          if is_ValueError e
          then \<lparr>completion = Returns_None,
                trace = [Call_to_checksum_address contract_address,
                         Print Invalid_address_format]\<rparr>
          else \<lparr>completion = Raises e,
                trace = [Call_to_checksum_address contract_address]\<rparr>
      | Inr target_address \<Rightarrow>
          (case block_number w3 of
             Inl e \<Rightarrow>
               \<lparr>completion = Raises e,
                trace = [Call_to_checksum_address contract_address, Read_block_number]\<rparr>
           | Inr latest_block_number \<Rightarrow>
               (case tqdm (block_window latest_block_number num_blocks) of
                  Inl e \<Rightarrow>
                    \<lparr>completion = Raises e,
                     trace = effects (initial_state contract_address target_address
                                        latest_block_number num_blocks)\<rparr>
                | Inr pbar \<Rightarrow>
                    (case scan_blocks w3 target_address pbar
                            (initial_state contract_address target_address
                               latest_block_number num_blocks) of
                       (s, Some e) \<Rightarrow> \<lparr>completion = Raises e, trace = effects s\<rparr>
                     | (s, None) \<Rightarrow> report s))))"

subsection \<open>Concrete providers\<close>

text \<open>
  The scenario of the specification: the head is block 12; blocks 10 and 11 hold
  transactions to the target, block 12 cannot be fetched. Addresses are canonical already
  except for one malformed string.
\<close>

definition demo_checksum :: "string \<Rightarrow> py_exception + string" where
  "demo_checksum a =
     (if a = ''0xBAD'' then Inl (ValueError ''invalid address'') else Inr a)"

definition demo_w3 :: provider where
  "demo_w3 =
     \<lparr>to_checksum_address = demo_checksum,
      block_number = Inr 12,
      get_block = (\<lambda>n.
        if n = 10 then
          Inr [\<lparr>tx_to = Some ''0xABCD'', tx_from = ''0xS1''\<rparr>,
               \<lparr>tx_to = None, tx_from = ''0xS3''\<rparr>,
               \<lparr>tx_to = Some ''0xABCD'', tx_from = ''0xS2''\<rparr>]
        else if n = 11 then
          Inr [\<lparr>tx_to = Some ''0xEEEE'', tx_from = ''0xS4''\<rparr>,
               \<lparr>tx_to = Some ''0xABCD'', tx_from = ''0xS1''\<rparr>]
        else Inl (OtherException ''block not available''))\<rparr>"

text \<open>
  A chain whose head, block 7, holds a second transaction with a recipient that cannot be
  canonicalised: the first transaction is counted before the exception ends the block.
  No other block can be fetched (pruned history).
\<close>

definition torn_w3 :: provider where
  "torn_w3 =
     \<lparr>to_checksum_address = demo_checksum,
      block_number = Inr 7,
      get_block = (\<lambda>n.
        if n = 7 then
          Inr [\<lparr>tx_to = Some ''0xABCD'', tx_from = ''0xS1''\<rparr>,
               \<lparr>tx_to = Some ''0xBAD'', tx_from = ''0xS2''\<rparr>]
        else Inl (OtherException ''block not available''))\<rparr>"

text \<open>The same chain as \<open>demo_w3\<close> within blocks 10 to 12, different outside.\<close>

definition demo_w3' :: provider where
  "demo_w3' =
     \<lparr>to_checksum_address = demo_checksum,
      block_number = Inr 12,
      get_block = (\<lambda>n.
        if 10 \<le> n \<and> n \<le> 12 then get_block demo_w3 n
        else Inr [\<lparr>tx_to = Some ''0xABCD'', tx_from = ''0xS9''\<rparr>])\<rparr>"

subsection \<open>Auxiliary notions for the properties\<close>

text \<open>
  The relation between the two accumulators that the loop maintains: the set is finite and
  has no more elements than transactions were counted.
\<close>

definition counts_ok :: "scan_state \<Rightarrow> bool" where
  "counts_ok s \<longleftrightarrow>
     finite (period_unique_interactors s) \<and>
     len_set (period_unique_interactors s) \<le> period_transactions s"

text \<open>
  A provider all of whose failures are instances of \<^verbatim>\<open>Exception\<close>: nothing like
  \<^verbatim>\<open>KeyboardInterrupt\<close> arrives during its calls.
\<close>

definition raises_only_Exception :: "provider \<Rightarrow> bool" where
  "raises_only_Exception w3 \<longleftrightarrow>
     (\<forall>a e. to_checksum_address w3 a = Inl e \<longrightarrow> is_Exception e) \<and>
     (\<forall>b e. get_block w3 b = Inl e \<longrightarrow> is_Exception e)"

text \<open>Whether the provider hands out block \<open>b\<close>.\<close>

definition fetched :: "provider \<Rightarrow> int \<Rightarrow> bool" where
  "fetched w3 b = (case get_block w3 b of Inl e \<Rightarrow> False | Inr transactions \<Rightarrow> True)"

text \<open>
  What a scan has aggregated, without the record of its effects: the counter, the set of
  senders and the exception in flight.
\<close>

definition tally ::
  "scan_state \<times> py_exception option \<Rightarrow> int \<times> string set \<times> py_exception option" where
  "tally r = (period_transactions (fst r), period_unique_interactors (fst r), snd r)"

definition same_counts :: "scan_state \<Rightarrow> scan_state \<Rightarrow> bool" where
  "same_counts s s' \<longleftrightarrow>
     period_transactions s = period_transactions s' \<and>
     period_unique_interactors s = period_unique_interactors s'"

section \<open>Properties\<close>

subsection \<open>Basic facts\<close>

lemma emit_fields [simp]:
  "period_transactions (emit ev s) = period_transactions s"
  "period_unique_interactors (emit ev s) = period_unique_interactors s"
  "effects (emit ev s) = effects s @ [ev]"
  by (simp_all add: emit_def)

lemma last_upto: "i \<le> j \<Longrightarrow> last [i..j] = j"
  by (simp add: upto_rec2)

lemma hd_upto: "i \<le> j \<Longrightarrow> hd [i..j] = i"
  by (simp add: upto_rec1)


lemma length_block_window:
  "int (length (block_window latest num_blocks)) = max 0 num_blocks"
  by (simp add: block_window_def py_range_def)

lemma tqdm_Inr: "tqdm xs = Inr ys \<Longrightarrow> ys = xs"
  by (auto simp: tqdm_def split: sum.splits)

lemma tqdm_block_window:
  "num_blocks \<le> sys_maxsize \<Longrightarrow>
   tqdm (block_window latest num_blocks) = Inr (block_window latest num_blocks)"
  by (simp add: tqdm_def py_len_def length_block_window sys_maxsize_def)

text \<open>
  The exponent is the right one: a positive \<open>x\<close> lies between the power of two that
  \<open>binary_exponent\<close> names and the next.
\<close>

lemma binary_exponent_ge_1:
  assumes "1 \<le> x"
  shows "pow2 (binary_exponent x) \<le> x \<and> x < pow2 (binary_exponent x + 1)"
proof -
  define n where "n = \<lfloor>x\<rfloor>"
  from assms have n: "1 \<le> n" by (simp add: n_def le_floor_iff)
  then have b: "2 ^ nat (bitlen n - 1) \<le> n" "n < 2 ^ nat (bitlen n)"
    using bitlen_bounds [of n] by simp_all
  from n have pos: "1 \<le> bitlen n" by (simp add: bitlen_alt_def)
  have e: "binary_exponent x = bitlen n - 1"
    using assms by (simp add: binary_exponent_def n_def)
  have lo: "(of_int n :: rat) \<le> x" by (simp add: n_def)
  have hi: "x < of_int (n + 1)" unfolding n_def by linarith
  from b(1) have "(2::rat) ^ nat (bitlen n - 1) \<le> of_int n"
    by (metis of_int_le_iff of_int_numeral of_int_power)
  with lo have "(2::rat) ^ nat (bitlen n - 1) \<le> x" by linarith
  with pos have 1: "pow2 (binary_exponent x) \<le> x"
    by (simp add: e pow2_def)
  from b(2) have "n + 1 \<le> 2 ^ nat (bitlen n)" by simp
  then have "(of_int (n + 1) :: rat) \<le> 2 ^ nat (bitlen n)"
    by (metis of_int_le_iff of_int_numeral of_int_power)
  with hi have "x < 2 ^ nat (bitlen n)" by linarith
  with pos have 2: "x < pow2 (binary_exponent x + 1)"
    by (simp add: e pow2_def)
  from 1 2 show ?thesis ..
qed

lemma binary_exponent_lt_1:
  assumes "0 < x" and "x < 1"
  shows "pow2 (binary_exponent x) \<le> x \<and> x < pow2 (binary_exponent x + 1)"
proof -
  define y where "y = 1 / x"
  define c where "c = \<lceil>y\<rceil>"
  from assms have y1: "1 < y" by (simp add: y_def)
  then have c2: "2 \<le> c" unfolding c_def by linarith
  have cy: "of_int (c - 1) < y" "y \<le> of_int c" unfolding c_def by linarith+
  define k where "k = bitlen (c - 1)"
  from c2 have b: "2 ^ nat (k - 1) \<le> c - 1" "c - 1 < 2 ^ nat k"
    using bitlen_bounds [of "c - 1"] by (simp_all add: k_def)
  from c2 have k1: "1 \<le> k" by (simp add: k_def bitlen_alt_def)
  have e: "binary_exponent x = - k"
    using assms by (simp add: binary_exponent_def k_def c_def y_def)
  from b(1) have "(2::rat) ^ nat (k - 1) \<le> of_int (c - 1)"
    by (metis of_int_le_iff of_int_numeral of_int_power)
  with cy(1) have lo: "(2::rat) ^ nat (k - 1) < y" by linarith
  from b(2) have "c \<le> 2 ^ nat k" by simp
  then have "(of_int c :: rat) \<le> 2 ^ nat k"
    by (metis of_int_le_iff of_int_numeral of_int_power)
  with cy(2) have hi: "y \<le> 2 ^ nat k" by linarith
  have x: "x = 1 / y" using assms by (simp add: y_def)
  from hi y1 have 1: "1 / 2 ^ nat k \<le> x"
    unfolding x by (intro divide_left_mono) simp_all
  from lo y1 have 2: "x < 1 / 2 ^ nat (k - 1)"
    unfolding x by (intro divide_strict_left_mono) simp_all
  have p1: "pow2 (- k) = 1 / 2 ^ nat k" using k1 by (simp add: pow2_def)
  have p2: "pow2 (1 - k) = 1 / 2 ^ nat (k - 1)"
    using k1 by (cases "k = 1") (simp_all add: pow2_def)
  from 1 2 show ?thesis by (simp add: e p1 p2)
qed

lemma binary_exponent_bounds:
  "0 < x \<Longrightarrow> pow2 (binary_exponent x) \<le> x \<and> x < pow2 (binary_exponent x + 1)"
  using binary_exponent_ge_1 [of x] binary_exponent_lt_1 [of x] by (cases "1 \<le> x") simp_all

lemma round_to_double_1 [simp]: "round_to_double 1 = 1"
  by code_simp

lemma round_to_double_100 [simp]: "round_to_double 100 = 100"
  by code_simp

lemma round_to_double_3_2 [simp]: "round_to_double (3 / 2) = 3 / 2"
  by code_simp

lemma round_to_double_third:
  "round_to_double (1 / 3) = 6004799503160661 / 18014398509481984"
  by code_simp

lemma round_to_double_odd_54_bits: "round_to_double (2 ^ 53 + 3) = 2 ^ 53 + 4"
  by code_simp

lemma engagement_ratio_returns: "\<exists>q. engagement_ratio s = Inr q"
  by (simp add: engagement_ratio_def py_truediv_def Let_def)

lemma adoption_velocity_index_returns: "\<exists>q. adoption_velocity_index s = Inr q"
  by (simp add: adoption_velocity_index_def py_truediv_def Let_def)

lemma report_shape:
  "\<exists>engagement adoption.
     engagement_ratio s = Inr engagement \<and> adoption_velocity_index s = Inr adoption \<and>
     report s = \<lparr>completion = Returns_None,
                 trace = effects s @
                   [Print (Results (period_transactions s)
                             (len_set (period_unique_interactors s)) engagement adoption),
                    Print (Conclusion (conclusion adoption))]\<rparr>"
proof -
  obtain e where e: "engagement_ratio s = Inr e"
    using engagement_ratio_returns by blast
  obtain a where a: "adoption_velocity_index s = Inr a"
    using adoption_velocity_index_returns by blast
  from e a show ?thesis by (simp add: report_def)
qed

text \<open>
  A window longer than \<^verbatim>\<open>sys.maxsize\<close>: the banner is printed, then creating
  the progress bar raises and no block is visited.
\<close>

lemma oversized_window_raises:
  assumes "sys_maxsize < num_blocks"
    and "to_checksum_address w3 contract_address = Inr target"
    and "block_number w3 = Inr latest"
  shows "analyze_contract_pulse w3 contract_address num_blocks =
     \<lparr>completion = Raises OverflowError,
      trace = [Call_to_checksum_address contract_address, Read_block_number,
               Print (Scan_banner target num_blocks (latest - num_blocks + 1) latest)]\<rparr>"
proof -
  from assms(1) have "0 < num_blocks" by (simp add: sys_maxsize_def)
  with assms(1) have "tqdm (block_window latest num_blocks) = Inl OverflowError"
    by (simp add: tqdm_def py_len_def length_block_window)
  with assms(2,3) show ?thesis
    by (simp add: analyze_contract_pulse_def initial_state_def)
qed

subsection \<open>Exceptions in flight come from the provider\<close>

lemma process_tx_raises:
  "process_tx w3 target x s = (s', Some e) \<Longrightarrow> \<exists>a. to_checksum_address w3 a = Inl e"
  by (auto simp: process_tx_def Let_def split: option.splits if_splits sum.splits)

lemma process_transactions_raises:
  "process_transactions w3 target xs s = (s', Some e) \<Longrightarrow>
   \<exists>a. to_checksum_address w3 a = Inl e"
proof (induction xs arbitrary: s)
  case Nil
  then show ?case by simp
next
  case (Cons x xs)
  obtain s1 r where step: "process_tx w3 target x s = (s1, r)"
    by (cases "process_tx w3 target x s")
  show ?case
  proof (cases r)
    case None
    with step Cons.prems have "process_transactions w3 target xs s1 = (s', Some e)" by simp
    then show ?thesis by (rule Cons.IH)
  next
    case (Some e')
    with step Cons.prems have "process_tx w3 target x s = (s', Some e)" by simp
    then show ?thesis by (rule process_tx_raises)
  qed
qed

lemma scan_block_no_abort:
  assumes "raises_only_Exception w3"
  shows "snd (scan_block w3 target b s) = None"
proof (cases "get_block w3 b")
  case (Inl e)
  with assms have "is_Exception e" by (auto simp: raises_only_Exception_def)
  with Inl show ?thesis by (simp add: scan_block_def Let_def)
next
  case (Inr txs)
  obtain s' r
    where run: "process_transactions w3 target txs (emit (Call_get_block b) s) = (s', r)"
    by (cases "process_transactions w3 target txs (emit (Call_get_block b) s)")
  show ?thesis
  proof (cases r)
    case None
    with Inr run show ?thesis by (simp add: scan_block_def Let_def)
  next
    case (Some e)
    with run process_transactions_raises [of w3 target txs _ s' e] assms
    have "is_Exception e" by (auto simp: raises_only_Exception_def)
    with Some Inr run show ?thesis by (simp add: scan_block_def Let_def)
  qed
qed

lemma scan_blocks_no_abort:
  assumes "raises_only_Exception w3"
  shows "snd (scan_blocks w3 target bs s) = None"
proof (induction bs arbitrary: s)
  case Nil
  show ?case by simp
next
  case (Cons b bs)
  obtain s' r where step: "scan_block w3 target b s = (s', r)"
    by (cases "scan_block w3 target b s")
  with scan_block_no_abort [OF assms, of target b s] have "r = None" by simp
  with step Cons.IH [of s'] show ?case by simp
qed

lemma demo_w3_raises_only_Exception: "raises_only_Exception demo_w3"
  by (simp add: raises_only_Exception_def demo_w3_def demo_checksum_def)

subsection \<open>What a call hands back\<close>

text \<open>
  Claim C1, as the code has it. For every provider that raises only instances of
  \<^verbatim>\<open>Exception\<close>, every contract address it canonicalises, every head height it
  reports and every \<open>num_blocks\<close> from \<open>1\<close> to \<^verbatim>\<open>sys.maxsize\<close> (the longest
  range the progress bar accepts), the call computes the four figures (transactions
  counted, number of unique senders, engagement ratio, adoption index) from the state the
  loop leaves, prints them as its last but one line, prints its conclusion, and returns
  \<^verbatim>\<open>None\<close>: the figures reach the caller through the printed output only.
\<close>

theorem results_are_printed_not_returned:
  assumes "1 \<le> num_blocks" and "num_blocks \<le> sys_maxsize"
    and "to_checksum_address w3 contract_address = Inr target"
    and "block_number w3 = Inr latest"
    and "raises_only_Exception w3"
  shows "\<exists>s engagement adoption.
      scan_blocks w3 target (block_window latest num_blocks)
        (initial_state contract_address target latest num_blocks) = (s, None)
      \<and> engagement_ratio s = Inr engagement
      \<and> adoption_velocity_index s = Inr adoption
      \<and> analyze_contract_pulse w3 contract_address num_blocks =
          \<lparr>completion = Returns_None,
           trace = effects s @
             [Print (Results (period_transactions s)
                       (len_set (period_unique_interactors s)) engagement adoption),
              Print (Conclusion (conclusion adoption))]\<rparr>"
proof -
  obtain s r where scan: "scan_blocks w3 target (block_window latest num_blocks)
        (initial_state contract_address target latest num_blocks) = (s, r)"
    by (cases "scan_blocks w3 target (block_window latest num_blocks)
        (initial_state contract_address target latest num_blocks)")
  with scan_blocks_no_abort [OF assms(5), of target "block_window latest num_blocks"
      "initial_state contract_address target latest num_blocks"]
  have r: "r = None" by simp
  from scan r assms(3,4) tqdm_block_window [OF assms(2), of latest]
  have "analyze_contract_pulse w3 contract_address num_blocks = report s"
    by (simp add: analyze_contract_pulse_def)
  with report_shape [of s] scan r show ?thesis by auto
qed

theorem results_are_printed_not_returned_witness:
  "(1::int) \<le> 3 \<and> 3 \<le> sys_maxsize
   \<and> to_checksum_address demo_w3 ''0xABCD'' = Inr ''0xABCD''
   \<and> block_number demo_w3 = Inr 12 \<and> raises_only_Exception demo_w3
   \<and> completion (analyze_contract_pulse demo_w3 ''0xABCD'' 3) = Returns_None
   \<and> last (trace (analyze_contract_pulse demo_w3 ''0xABCD'' 3)) = Print (Conclusion Viral)"
proof -
  have h1: "(1::int) \<le> 3" by simp
  have h0: "3 \<le> sys_maxsize" by (simp add: sys_maxsize_def)
  have h2: "to_checksum_address demo_w3 ''0xABCD'' = Inr ''0xABCD''"
    by (simp add: demo_w3_def demo_checksum_def)
  have h3: "block_number demo_w3 = Inr 12"
    by (simp add: demo_w3_def)
  have h4: "raises_only_Exception demo_w3"
    by (rule demo_w3_raises_only_Exception)
  from results_are_printed_not_returned [OF h1 h0 h2 h3 h4]
  obtain s engagement adoption where
    scan: "scan_blocks demo_w3 ''0xABCD'' (block_window 12 3)
        (initial_state ''0xABCD'' ''0xABCD'' 12 3) = (s, None)"
    and adoption: "adoption_velocity_index s = Inr adoption"
    and run: "analyze_contract_pulse demo_w3 ''0xABCD'' 3 =
          \<lparr>completion = Returns_None,
           trace = effects s @
             [Print (Results (period_transactions s)
                       (len_set (period_unique_interactors s)) engagement adoption),
              Print (Conclusion (conclusion adoption))]\<rparr>"
    by blast
  from scan have "period_unique_interactors s = {''0xS1'', ''0xS2''}"
    by (auto simp: block_window_def py_range_def scan_block_def process_tx_def demo_w3_def
          demo_checksum_def initial_state_def emit_def)
  with adoption have "adoption = 100"
    by (simp add: adoption_velocity_index_def len_set_def py_truediv_def py_float_mul_def)
  with run h1 h0 h2 h3 h4 show ?thesis
    by (simp add: conclusion_def)
qed

text \<open>
  Claim C1 as stated fails: on the scenario of the specification (three blocks, the last
  one unavailable) the call ends by returning \<^verbatim>\<open>None\<close>; the figures
  \<open>3\<close>, \<open>2\<close>, \<open>3/2\<close> and \<open>100\<close> appear in what it printed and nowhere else.
\<close>

theorem returns_none_counterexample:
  "analyze_contract_pulse demo_w3 ''0xABCD'' 3 =
     \<lparr>completion = Returns_None,
      trace = [Call_to_checksum_address ''0xABCD'', Read_block_number,
           Print (Scan_banner ''0xABCD'' 3 10 12), Call_get_block 10,
           Call_to_checksum_address ''0xABCD'', Call_to_checksum_address ''0xS1'',
           Call_to_checksum_address ''0xABCD'', Call_to_checksum_address ''0xS2'',
           Call_get_block 11, Call_to_checksum_address ''0xEEEE'',
           Call_to_checksum_address ''0xABCD'', Call_to_checksum_address ''0xS1'',
           Call_get_block 12,
           Print (Block_failure 12 (OtherException ''block not available'')),
           Print (Results 3 2 (3 / 2) 100), Print (Conclusion Viral)]\<rparr>"
  by (simp add: analyze_contract_pulse_def block_window_def py_range_def tqdm_def py_len_def
        sys_maxsize_def scan_block_def process_tx_def demo_w3_def demo_checksum_def
        initial_state_def emit_def report_def engagement_ratio_def
        adoption_velocity_index_def len_set_def py_truediv_def py_float_mul_def
        conclusion_def card_insert_if)

subsection \<open>Blocks that fail\<close>

lemma same_counts_refl [simp]: "same_counts s s"
  by (simp add: same_counts_def)

lemma same_counts_emit [simp]:
  "same_counts (emit ev s) s' = same_counts s s'"
  "same_counts s (emit ev s') = same_counts s s'"
  by (simp_all add: same_counts_def)

lemma tally_eq_iff:
  "tally (s, r) = tally (s', r') \<longleftrightarrow> same_counts s s' \<and> r = r'"
  by (auto simp: tally_def same_counts_def)

lemma process_tx_same_counts:
  "same_counts s s' \<Longrightarrow> tally (process_tx w3 target x s) = tally (process_tx w3 target x s')"
  by (auto simp: process_tx_def tally_def same_counts_def Let_def
           split: option.splits sum.splits)

lemma process_transactions_same_counts:
  "same_counts s s' \<Longrightarrow>
   tally (process_transactions w3 target xs s) = tally (process_transactions w3 target xs s')"
proof (induction xs arbitrary: s s')
  case Nil
  then show ?case by (simp add: tally_eq_iff)
next
  case (Cons x xs)
  obtain s1 r1 where a: "process_tx w3 target x s = (s1, r1)"
    by (cases "process_tx w3 target x s")
  obtain s2 r2 where b: "process_tx w3 target x s' = (s2, r2)"
    by (cases "process_tx w3 target x s'")
  from process_tx_same_counts [OF Cons.prems, of w3 target x] a b
  have eq: "same_counts s1 s2" and r: "r2 = r1" by (simp_all add: tally_eq_iff)
  from b r have b': "process_tx w3 target x s' = (s2, r1)" by simp
  show ?case
  proof (cases r1)
    case None
    with a b' Cons.IH [OF eq] show ?thesis by simp
  next
    case (Some e)
    with a b' eq show ?thesis by (simp add: tally_eq_iff)
  qed
qed

lemma scan_block_same_counts:
  assumes "same_counts s s'"
  shows "tally (scan_block w3 target b s) = tally (scan_block w3 target b s')"
proof (cases "get_block w3 b")
  case (Inl e)
  with assms show ?thesis by (simp add: scan_block_def Let_def tally_eq_iff)
next
  case (Inr txs)
  obtain s1 r1
    where a: "process_transactions w3 target txs (emit (Call_get_block b) s) = (s1, r1)"
    by (cases "process_transactions w3 target txs (emit (Call_get_block b) s)")
  obtain s2 r2
    where b: "process_transactions w3 target txs (emit (Call_get_block b) s') = (s2, r2)"
    by (cases "process_transactions w3 target txs (emit (Call_get_block b) s')")
  from assms have "same_counts (emit (Call_get_block b) s) (emit (Call_get_block b) s')"
    by simp
  from process_transactions_same_counts [OF this, of w3 target txs] a b
  have eq: "same_counts s1 s2" and r: "r2 = r1" by (simp_all add: tally_eq_iff)
  from b r
  have b': "process_transactions w3 target txs (emit (Call_get_block b) s') = (s2, r1)"
    by simp
  from Inr a b' eq show ?thesis
    by (cases r1) (simp_all add: scan_block_def Let_def tally_eq_iff)
qed

lemma scan_block_fetch_failure:
  assumes "get_block w3 b = Inl e" and "is_Exception e"
  shows "scan_block w3 target b s =
           (emit (Print (Block_failure b e)) (emit (Call_get_block b) s), None)"
  using assms by (simp add: scan_block_def Let_def)

lemma scan_block_processing_failure:
  assumes "get_block w3 b = Inr txs"
    and "snd (process_transactions w3 target txs (emit (Call_get_block b) s)) = Some e"
    and "is_Exception e"
  shows "scan_block w3 target b s =
           (emit (Print (Block_failure b e))
              (fst (process_transactions w3 target txs (emit (Call_get_block b) s))), None)"
proof -
  obtain s' r
    where run: "process_transactions w3 target txs (emit (Call_get_block b) s) = (s', r)"
    by (cases "process_transactions w3 target txs (emit (Call_get_block b) s)")
  with assms show ?thesis by (simp add: scan_block_def Let_def)
qed

lemma scan_blocks_fetched_only:
  assumes "\<forall>b \<in> set bs. \<forall>e. get_block w3 b = Inl e \<longrightarrow> is_Exception e"
    and "same_counts s s'"
  shows "tally (scan_blocks w3 target bs s) =
         tally (scan_blocks w3 target (filter (fetched w3) bs) s')"
  using assms
proof (induction bs arbitrary: s s')
  case Nil
  then show ?case by (simp add: tally_eq_iff)
next
  case (Cons b bs)
  from Cons.prems(1)
  have rest: "\<forall>b \<in> set bs. \<forall>e. get_block w3 b = Inl e \<longrightarrow> is_Exception e"
    by simp
  show ?case
  proof (cases "get_block w3 b")
    case (Inl e)
    with Cons.prems(1) have exc: "is_Exception e" by simp
    from Inl have nf: "\<not> fetched w3 b" by (simp add: fetched_def)
    from Cons.prems(2)
    have "same_counts (emit (Print (Block_failure b e)) (emit (Call_get_block b) s)) s'"
      by simp
    from Cons.IH [OF rest this] nf scan_block_fetch_failure [OF Inl exc, of target s]
    show ?thesis by simp
  next
    case (Inr txs)
    then have f: "fetched w3 b" by (simp add: fetched_def)
    obtain s1 r1 where a: "scan_block w3 target b s = (s1, r1)"
      by (cases "scan_block w3 target b s")
    obtain s2 r2 where b: "scan_block w3 target b s' = (s2, r2)"
      by (cases "scan_block w3 target b s'")
    from scan_block_same_counts [OF Cons.prems(2), of w3 target b] a b
    have eq: "same_counts s1 s2" and r: "r2 = r1" by (simp_all add: tally_eq_iff)
    from b r have b': "scan_block w3 target b s' = (s2, r1)" by simp
    show ?thesis
    proof (cases r1)
      case None
      with a b' f Cons.IH [OF rest eq] show ?thesis by simp
    next
      case (Some e)
      with a b' eq f show ?thesis by (simp add: tally_eq_iff)
    qed
  qed
qed

text \<open>
  Claim C2, as the code has it. A block whose fetch or processing raises an instance of
  \<^verbatim>\<open>Exception\<close> does not end the scan: the warning for that block number is
  written and the loop goes on with the blocks that follow. A block whose fetch fails
  leaves the counter and the set of senders as they were, so over any list of blocks the
  scan aggregates exactly what it would over the blocks that could be fetched. For a
  block that raises while its transactions are processed, the state at the moment of the
  exception is the one carried on: nothing is said here about what it holds.
\<close>

theorem failed_block_reported_scan_continues:
  "(get_block w3 b = Inl e \<and> is_Exception e \<longrightarrow>
      scan_block w3 target b s =
        (emit (Print (Block_failure b e)) (emit (Call_get_block b) s), None)
      \<and> period_transactions (fst (scan_block w3 target b s)) = period_transactions s
      \<and> period_unique_interactors (fst (scan_block w3 target b s)) =
          period_unique_interactors s
      \<and> scan_blocks w3 target (b # rest) s =
          scan_blocks w3 target rest (fst (scan_block w3 target b s)))
   \<and> (get_block w3 b' = Inr txs \<and>
      snd (process_transactions w3 target txs (emit (Call_get_block b') s)) = Some e' \<and>
      is_Exception e' \<longrightarrow>
        scan_block w3 target b' s =
          (emit (Print (Block_failure b' e'))
             (fst (process_transactions w3 target txs (emit (Call_get_block b') s))), None)
        \<and> scan_blocks w3 target (b' # rest) s =
            scan_blocks w3 target rest (fst (scan_block w3 target b' s)))
   \<and> ((\<forall>b \<in> set bs. \<forall>e. get_block w3 b = Inl e \<longrightarrow> is_Exception e) \<longrightarrow>
        tally (scan_blocks w3 target bs s) =
        tally (scan_blocks w3 target (filter (fetched w3) bs) s))"
proof (intro conjI impI)
  assume f: "get_block w3 b = Inl e \<and> is_Exception e"
  then have "scan_block w3 target b s =
      (emit (Print (Block_failure b e)) (emit (Call_get_block b) s), None)"
    by (intro scan_block_fetch_failure) simp_all
  then show "scan_block w3 target b s =
      (emit (Print (Block_failure b e)) (emit (Call_get_block b) s), None)"
    and "period_transactions (fst (scan_block w3 target b s)) = period_transactions s"
    and "period_unique_interactors (fst (scan_block w3 target b s)) =
      period_unique_interactors s"
    and "scan_blocks w3 target (b # rest) s =
      scan_blocks w3 target rest (fst (scan_block w3 target b s))"
    by simp_all
next
  assume p: "get_block w3 b' = Inr txs \<and>
    snd (process_transactions w3 target txs (emit (Call_get_block b') s)) = Some e' \<and>
    is_Exception e'"
  then have "scan_block w3 target b' s =
      (emit (Print (Block_failure b' e'))
         (fst (process_transactions w3 target txs (emit (Call_get_block b') s))), None)"
    by (intro scan_block_processing_failure) simp_all
  then show "scan_block w3 target b' s =
      (emit (Print (Block_failure b' e'))
         (fst (process_transactions w3 target txs (emit (Call_get_block b') s))), None)"
    and "scan_blocks w3 target (b' # rest) s =
      scan_blocks w3 target rest (fst (scan_block w3 target b' s))"
    by simp_all
next
  assume "\<forall>b \<in> set bs. \<forall>e. get_block w3 b = Inl e \<longrightarrow> is_Exception e"
  then show "tally (scan_blocks w3 target bs s) =
      tally (scan_blocks w3 target (filter (fetched w3) bs) s)"
    by (rule scan_blocks_fetched_only) simp
qed

theorem failed_block_reported_scan_continues_witness:
  "get_block torn_w3 6 = Inl (OtherException ''block not available'')
   \<and> is_Exception (OtherException ''block not available'')
   \<and> scan_block torn_w3 ''0xABCD'' 6 (initial_state ''0xABCD'' ''0xABCD'' 7 2) =
       (emit (Print (Block_failure 6 (OtherException ''block not available'')))
          (emit (Call_get_block 6) (initial_state ''0xABCD'' ''0xABCD'' 7 2)), None)
   \<and> get_block torn_w3 7 =
       Inr [\<lparr>tx_to = Some ''0xABCD'', tx_from = ''0xS1''\<rparr>,
            \<lparr>tx_to = Some ''0xBAD'', tx_from = ''0xS2''\<rparr>]
   \<and> is_Exception (ValueError ''invalid address'')
   \<and> snd (scan_block torn_w3 ''0xABCD'' 7 (initial_state ''0xABCD'' ''0xABCD'' 7 2)) = None
   \<and> filter (fetched torn_w3) [6, 7] = [7]
   \<and> tally (scan_blocks torn_w3 ''0xABCD'' [6, 7] (initial_state ''0xABCD'' ''0xABCD'' 7 2)) =
       tally (scan_blocks torn_w3 ''0xABCD'' [7] (initial_state ''0xABCD'' ''0xABCD'' 7 2))"
  using failed_block_reported_scan_continues
    [of torn_w3 6 "OtherException ''block not available''" "''0xABCD''"
        "initial_state ''0xABCD'' ''0xABCD'' 7 2" "[]" 7
        "[\<lparr>tx_to = Some ''0xABCD'', tx_from = ''0xS1''\<rparr>,
          \<lparr>tx_to = Some ''0xBAD'', tx_from = ''0xS2''\<rparr>]"
        "ValueError ''invalid address''" "[6, 7]"]
  by (simp add: torn_w3_def demo_checksum_def scan_block_def process_tx_def fetched_def
        emit_def initial_state_def tally_def)

text \<open>
  Claim C2 as stated fails where it says that a failed block contributes nothing. With the
  head at block 7 and a window of two blocks, block 6 cannot be fetched and block 7 raises
  at its second transaction. Both failures are reported, no block of the window has
  succeeded, and the figures printed are one transaction and one unique sender: the first
  transaction of block 7 was counted before the exception.
\<close>

theorem torn_block_counterexample:
  "analyze_contract_pulse torn_w3 ''0xABCD'' 2 =
     \<lparr>completion = Returns_None,
      trace = [Call_to_checksum_address ''0xABCD'', Read_block_number,
               Print (Scan_banner ''0xABCD'' 2 6 7), Call_get_block 6,
               Print (Block_failure 6 (OtherException ''block not available'')),
               Call_get_block 7,
               Call_to_checksum_address ''0xABCD'', Call_to_checksum_address ''0xS1'',
               Call_to_checksum_address ''0xBAD'',
               Print (Block_failure 7 (ValueError ''invalid address'')),
               Print (Results 1 1 1 100), Print (Conclusion Viral)]\<rparr>"
  by (simp add: analyze_contract_pulse_def block_window_def py_range_def tqdm_def py_len_def
        sys_maxsize_def scan_block_def process_tx_def torn_w3_def demo_checksum_def
        initial_state_def emit_def report_def engagement_ratio_def
        adoption_velocity_index_def len_set_def py_truediv_def py_float_mul_def
        conclusion_def)

subsection \<open>A window of no blocks\<close>




subsection \<open>A malformed contract address\<close>

text \<open>
  Claim C4, as the code has it. When the contract address cannot be canonicalised (the
  canonicalisation raises \<^verbatim>\<open>ValueError\<close>), the call stops before anything is
  fetched: the error message is the only thing printed, the head height is not read, no
  block is requested and no result is printed. The handler of lines 49 to 51 prints the
  error and returns \<^verbatim>\<open>None\<close>; nothing is raised to the caller.
\<close>

theorem invalid_address_stops_before_any_request:
  assumes "to_checksum_address w3 contract_address = Inl (ValueError m)"
  shows "analyze_contract_pulse w3 contract_address num_blocks =
           \<lparr>completion = Returns_None,
            trace = [Call_to_checksum_address contract_address, Print Invalid_address_format]\<rparr>
       \<and> Read_block_number \<notin> set (trace (analyze_contract_pulse w3 contract_address num_blocks))
       \<and> Call_get_block b \<notin> set (trace (analyze_contract_pulse w3 contract_address num_blocks))
       \<and> Print (Results tot uniq engagement adoption)
            \<notin> set (trace (analyze_contract_pulse w3 contract_address num_blocks))"
  using assms by (simp add: analyze_contract_pulse_def)

theorem invalid_address_stops_before_any_request_witness:
  "to_checksum_address torn_w3 ''0xBAD'' = Inl (ValueError ''invalid address'')
   \<and> analyze_contract_pulse torn_w3 ''0xBAD'' 1000 =
           \<lparr>completion = Returns_None,
            trace = [Call_to_checksum_address ''0xBAD'', Print Invalid_address_format]\<rparr>
   \<and> Read_block_number \<notin> set (trace (analyze_contract_pulse torn_w3 ''0xBAD'' 1000))
   \<and> Call_get_block 7 \<notin> set (trace (analyze_contract_pulse torn_w3 ''0xBAD'' 1000))"
  using invalid_address_stops_before_any_request
    [of torn_w3 "''0xBAD''" "''invalid address''" 1000 7]
  by (simp add: torn_w3_def demo_checksum_def)

text \<open>
  Claim C4 as stated fails where it says that the operation fails with an error: on the
  malformed address \<^verbatim>\<open>0xBAD\<close> the call completes by returning
  \<^verbatim>\<open>None\<close>, the way a successful scan completes, and raises nothing.
\<close>

theorem invalid_address_returns_none_counterexample:
  "analyze_contract_pulse demo_w3 ''0xBAD'' 3 =
     \<lparr>completion = Returns_None,
      trace = [Call_to_checksum_address ''0xBAD'', Print Invalid_address_format]\<rparr>"
  by (simp add: analyze_contract_pulse_def demo_w3_def demo_checksum_def)

subsection \<open>The block window\<close>

text \<open>
  Claim C5. For every \<open>num_blocks \<ge> 1\<close> and head height \<open>H\<close>, the block numbers the
  loop visits are the inclusive range from \<open>H - num_blocks + 1\<close> through \<open>H\<close>: there
  are exactly \<open>num_blocks\<close> of them, in ascending order without repetition, the first is
  \<open>H - num_blocks + 1\<close> and the last is \<open>H\<close>.
\<close>

theorem block_window_inclusive:
  assumes "1 \<le> num_blocks"
  shows "block_window H num_blocks = [H - num_blocks + 1..H]
       \<and> int (length (block_window H num_blocks)) = num_blocks
       \<and> hd (block_window H num_blocks) = H - num_blocks + 1
       \<and> last (block_window H num_blocks) = H
       \<and> set (block_window H num_blocks) = {b. H - num_blocks + 1 \<le> b \<and> b \<le> H}
       \<and> sorted (block_window H num_blocks) \<and> distinct (block_window H num_blocks)"
  using assms by (simp add: block_window_def py_range_def last_upto hd_upto set_eq_iff)

theorem block_window_inclusive_witness:
  "(1::int) \<le> 3 \<and> block_window 12 3 = [10, 11, 12]
     \<and> int (length (block_window 12 3)) = 3 \<and> last (block_window 12 3) = 12"
  using block_window_inclusive [of 3 12] by simp

subsection \<open>Counted transactions bound the unique senders\<close>

lemma counts_ok_emit [simp]: "counts_ok (emit ev s) = counts_ok s"
  by (simp add: counts_ok_def)

lemma counts_ok_initial_state: "counts_ok (initial_state a target latest n)"
  by (simp add: counts_ok_def initial_state_def len_set_def)

lemma counts_ok_process_tx:
  "counts_ok s \<Longrightarrow> counts_ok (fst (process_tx w3 target x s))"
  by (auto simp: process_tx_def counts_ok_def len_set_def Let_def card_insert_if
           split: option.splits sum.splits)

lemma counts_ok_process_transactions:
  "counts_ok s \<Longrightarrow> counts_ok (fst (process_transactions w3 target xs s))"
proof (induction xs arbitrary: s)
  case Nil
  then show ?case by simp
next
  case (Cons x xs)
  obtain s' r where step: "process_tx w3 target x s = (s', r)"
    by (cases "process_tx w3 target x s")
  with Cons.prems counts_ok_process_tx [of s w3 target x] have ok: "counts_ok s'"
    by simp
  show ?case
  proof (cases r)
    case None
    with step ok Cons.IH [of s'] show ?thesis by simp
  next
    case (Some e)
    with step ok show ?thesis by simp
  qed
qed

lemma counts_ok_scan_block:
  assumes ok: "counts_ok s"
  shows "counts_ok (fst (scan_block w3 target b s))"
proof (cases "get_block w3 b")
  case (Inl e)
  with ok show ?thesis by (simp add: scan_block_def Let_def)
next
  case (Inr txs)
  obtain s' r
    where run: "process_transactions w3 target txs (emit (Call_get_block b) s) = (s', r)"
    by (cases "process_transactions w3 target txs (emit (Call_get_block b) s)")
  from ok counts_ok_process_transactions [of "emit (Call_get_block b) s" w3 target txs] run
  have "counts_ok s'" by simp
  with Inr run show ?thesis
    by (cases r) (simp_all add: scan_block_def Let_def)
qed

lemma counts_ok_scan_blocks:
  "counts_ok s \<Longrightarrow> counts_ok (fst (scan_blocks w3 target bs s))"
proof (induction bs arbitrary: s)
  case Nil
  then show ?case by simp
next
  case (Cons b bs)
  obtain s' r where step: "scan_block w3 target b s = (s', r)"
    by (cases "scan_block w3 target b s")
  with Cons.prems counts_ok_scan_block [of s w3 target b] have ok: "counts_ok s'"
    by simp
  show ?case
  proof (cases r)
    case None
    with step ok Cons.IH [of s'] show ?thesis by simp
  next
    case (Some e)
    with step ok show ?thesis by simp
  qed
qed

text \<open>
  Claim C6. At every point during and after the scan the number of counted transactions
  is at least the number of unique senders. The points of a scan are: the start, the state
  after any number of blocks \<open>bs\<close> (for the whole window, the state the metrics are
  computed from), and inside the next block \<open>b\<close> the state after any number of its
  transactions \<open>txs\<close>, whether or not one of them raised. Between the increment of the
  counter and the insertion of the sender the counter is one larger and the set unchanged.
\<close>

theorem transactions_bound_unique_senders:
  "len_set (period_unique_interactors
       (fst (process_transactions w3 target txs
          (emit (Call_get_block b)
             (fst (scan_blocks w3 target bs (initial_state a target latest n)))))))
   \<le> period_transactions
       (fst (process_transactions w3 target txs
          (emit (Call_get_block b)
             (fst (scan_blocks w3 target bs (initial_state a target latest n))))))
   \<and> len_set (period_unique_interactors
       (fst (scan_blocks w3 target bs (initial_state a target latest n))))
   \<le> period_transactions
       (fst (scan_blocks w3 target bs (initial_state a target latest n)))"
proof -
  have after_blocks:
    "counts_ok (fst (scan_blocks w3 target bs (initial_state a target latest n)))"
    by (rule counts_ok_scan_blocks) (rule counts_ok_initial_state)
  then have "counts_ok (emit (Call_get_block b)
      (fst (scan_blocks w3 target bs (initial_state a target latest n))))"
    by simp
  then have "counts_ok (fst (process_transactions w3 target txs
      (emit (Call_get_block b)
         (fst (scan_blocks w3 target bs (initial_state a target latest n))))))"
    by (rule counts_ok_process_transactions)
  with after_blocks show ?thesis by (simp add: counts_ok_def)
qed

subsection \<open>The metrics\<close>

text \<open>
  Claim C7. When the set of unique senders is empty after the scan, the engagement ratio
  and the adoption index are both \<open>0\<close>. Both divisions are guarded: for every state the
  two computations return a value, so \<^verbatim>\<open>ZeroDivisionError\<close> is never raised and
  the report always completes.
\<close>

theorem empty_senders_zero_metrics:
  "(period_unique_interactors s = {} \<longrightarrow>
      engagement_ratio s = Inr 0 \<and> adoption_velocity_index s = Inr 0)
   \<and> (\<exists>q. engagement_ratio s = Inr q)
   \<and> (\<exists>q. adoption_velocity_index s = Inr q)
   \<and> completion (report s) = Returns_None"
proof -
  have e: "\<exists>q. engagement_ratio s = Inr q"
    by (rule engagement_ratio_returns)
  have a: "\<exists>q. adoption_velocity_index s = Inr q"
    by (rule adoption_velocity_index_returns)
  from e a have r: "completion (report s) = Returns_None"
    by (auto simp: report_def)
  have z: "period_unique_interactors s = {} \<longrightarrow>
      engagement_ratio s = Inr 0 \<and> adoption_velocity_index s = Inr 0"
    by (simp add: engagement_ratio_def adoption_velocity_index_def len_set_def)
  from e a r z show ?thesis by blast
qed

theorem empty_senders_zero_metrics_witness:
  "period_unique_interactors (fst (scan_blocks demo_w3 ''0xFFFF'' [10, 11, 12]
       (initial_state ''0xFFFF'' ''0xFFFF'' 12 3))) = {}
   \<and> engagement_ratio (fst (scan_blocks demo_w3 ''0xFFFF'' [10, 11, 12]
       (initial_state ''0xFFFF'' ''0xFFFF'' 12 3))) = Inr 0
   \<and> adoption_velocity_index (fst (scan_blocks demo_w3 ''0xFFFF'' [10, 11, 12]
       (initial_state ''0xFFFF'' ''0xFFFF'' 12 3))) = Inr 0"
  using empty_senders_zero_metrics [of "fst (scan_blocks demo_w3 ''0xFFFF'' [10, 11, 12]
       (initial_state ''0xFFFF'' ''0xFFFF'' 12 3))"]
  by (simp add: scan_block_def process_tx_def demo_w3_def demo_checksum_def
        initial_state_def emit_def)

text \<open>
  Claim C8. The set of known wallets is empty (line 102), so whenever the scan has found
  at least one unique sender the adoption index is \<open>100\<close>: every sender counts as newly
  discovered.
\<close>

theorem no_known_wallets_full_adoption:
  assumes "0 < len_set (period_unique_interactors s)"
  shows "adoption_velocity_index s = Inr 100"
  using assms
  by (simp add: adoption_velocity_index_def py_truediv_def py_float_mul_def Let_def)

theorem no_known_wallets_full_adoption_witness:
  "0 < len_set (period_unique_interactors (fst (scan_blocks demo_w3 ''0xABCD'' [10, 11, 12]
       (initial_state ''0xABCD'' ''0xABCD'' 12 3))))
   \<and> adoption_velocity_index (fst (scan_blocks demo_w3 ''0xABCD'' [10, 11, 12]
       (initial_state ''0xABCD'' ''0xABCD'' 12 3))) = Inr 100"
  using no_known_wallets_full_adoption [of "fst (scan_blocks demo_w3 ''0xABCD'' [10, 11, 12]
       (initial_state ''0xABCD'' ''0xABCD'' 12 3))"]
  by (simp add: scan_block_def process_tx_def demo_w3_def demo_checksum_def
        initial_state_def emit_def len_set_def card_insert_if)

subsection \<open>The same blocks give the same result\<close>

lemma process_tx_cong:
  assumes "to_checksum_address w3 = to_checksum_address w3'"
  shows "process_tx w3 target x s = process_tx w3' target x s"
  unfolding process_tx_def assms by (rule refl)

lemma process_transactions_cong:
  assumes "to_checksum_address w3 = to_checksum_address w3'"
  shows "process_transactions w3 target xs s = process_transactions w3' target xs s"
  by (induction xs arbitrary: s) (simp_all add: process_tx_cong [OF assms])

lemma scan_block_cong:
  assumes "to_checksum_address w3 = to_checksum_address w3'"
    and "get_block w3 b = get_block w3' b"
  shows "scan_block w3 target b s = scan_block w3' target b s"
  unfolding scan_block_def assms(2) process_transactions_cong [OF assms(1)] by (rule refl)

lemma scan_blocks_cong:
  "to_checksum_address w3 = to_checksum_address w3' \<Longrightarrow>
   \<forall>b \<in> set bs. get_block w3 b = get_block w3' b \<Longrightarrow>
   scan_blocks w3 target bs s = scan_blocks w3' target bs s"
proof (induction bs arbitrary: s)
  case Nil
  then show ?case by simp
next
  case (Cons b bs)
  from Cons.prems have "scan_block w3 target b s = scan_block w3' target b s"
    by (intro scan_block_cong) simp_all
  moreover have "\<And>s'. scan_blocks w3 target bs s' = scan_blocks w3' target bs s'"
    by (rule Cons.IH) (use Cons.prems in simp_all)
  ultimately show ?case by simp
qed

text \<open>
  Claim C9. Two runs over the same range of blocks with the same contract address give
  identical results. The accumulators are created anew by every call, and a run depends on
  the provider only through the canonicalisation, the head height and the blocks of the
  window: two providers that agree on these give the same run (return, calls and printed
  figures alike) and leave the same counter and set of senders, whatever they hold outside
  the window.
\<close>

theorem same_blocks_same_result:
  assumes "to_checksum_address w3 = to_checksum_address w3'"
    and "block_number w3 = Inr latest" and "block_number w3' = Inr latest"
    and "\<forall>b \<in> set (block_window latest num_blocks). get_block w3 b = get_block w3' b"
  shows "analyze_contract_pulse w3 contract_address num_blocks =
         analyze_contract_pulse w3' contract_address num_blocks
       \<and> scan_blocks w3 target (block_window latest num_blocks) s =
         scan_blocks w3' target (block_window latest num_blocks) s"
proof -
  have scan: "\<And>t s. scan_blocks w3 t (block_window latest num_blocks) s =
      scan_blocks w3' t (block_window latest num_blocks) s"
    using assms(1,4) by (rule scan_blocks_cong)
  have tc: "to_checksum_address w3 contract_address = to_checksum_address w3' contract_address"
    using assms(1) by simp
  have "analyze_contract_pulse w3 contract_address num_blocks =
         analyze_contract_pulse w3' contract_address num_blocks"
  proof (cases "to_checksum_address w3' contract_address")
    case (Inl e)
    with tc show ?thesis by (simp add: analyze_contract_pulse_def)
  next
    case (Inr t)
    show ?thesis
    proof (cases "tqdm (block_window latest num_blocks)")
      case (Inl e)
      with Inr tc assms(2,3) show ?thesis by (simp add: analyze_contract_pulse_def)
    next
      case bar: (Inr pbar)
      then have "pbar = block_window latest num_blocks" by (rule tqdm_Inr)
      with bar Inr tc assms(2,3) show ?thesis by (simp add: analyze_contract_pulse_def scan)
    qed
  qed
  with scan show ?thesis by simp
qed

theorem same_blocks_same_result_witness:
  "to_checksum_address demo_w3 = to_checksum_address demo_w3'
   \<and> block_number demo_w3 = Inr 12 \<and> block_number demo_w3' = Inr 12
   \<and> block_window 12 3 = [10, 11, 12]
   \<and> get_block demo_w3 10 = get_block demo_w3' 10
   \<and> get_block demo_w3 11 = get_block demo_w3' 11
   \<and> get_block demo_w3 12 = get_block demo_w3' 12
   \<and> get_block demo_w3 9 \<noteq> get_block demo_w3' 9
   \<and> analyze_contract_pulse demo_w3 ''0xABCD'' 3 = analyze_contract_pulse demo_w3' ''0xABCD'' 3"
  using same_blocks_same_result [of demo_w3 demo_w3' 12 3 "''0xABCD''"]
  by (simp add: demo_w3_def demo_w3'_def block_window_def py_range_def)

subsection \<open>Transactions without a recipient\<close>

lemma process_transactions_drop_null:
  "process_transactions w3 target (filter (\<lambda>t. tx_to t \<noteq> None) ts) s =
   process_transactions w3 target ts s"
proof (induction ts arbitrary: s)
  case Nil
  show ?case by simp
next
  case (Cons t ts)
  show ?case
  proof (cases "tx_to t")
    case None
    then have "process_tx w3 target t s = (s, None)" by (simp add: process_tx_def)
    with None Cons.IH [of s] show ?thesis by simp
  next
    case (Some a)
    with Cons.IH show ?thesis by (simp split: prod.splits option.splits)
  qed
qed

text \<open>
  Claim C10. A transaction whose \<^verbatim>\<open>to\<close> field is \<^verbatim>\<open>None\<close> is passed over:
  the state after it is the state before it (no canonicalisation call is recorded, the
  counter and the set of senders are untouched) and nothing is raised, whatever the
  provider would do with the fields of that transaction. A block therefore gives the same
  outcome with or without such transactions.
\<close>

theorem null_recipient_skipped:
  "(tx_to t = None \<longrightarrow> process_tx w3 target t s = (s, None))
   \<and> process_transactions w3 target (filter (\<lambda>t. tx_to t \<noteq> None) ts) s =
     process_transactions w3 target ts s"
  using process_transactions_drop_null [of w3 target ts s] by (simp add: process_tx_def)

theorem null_recipient_skipped_witness:
  "tx_to \<lparr>tx_to = None, tx_from = ''0xBAD''\<rparr> = None
   \<and> to_checksum_address torn_w3 ''0xBAD'' = Inl (ValueError ''invalid address'')
   \<and> process_tx torn_w3 ''0xABCD'' \<lparr>tx_to = None, tx_from = ''0xBAD''\<rparr>
         (initial_state ''0xABCD'' ''0xABCD'' 7 1)
       = (initial_state ''0xABCD'' ''0xABCD'' 7 1, None)"
  using null_recipient_skipped [of "\<lparr>tx_to = None, tx_from = ''0xBAD''\<rparr>" torn_w3
      "''0xABCD''" "initial_state ''0xABCD'' ''0xABCD'' 7 1" "[]"]
  by (simp add: torn_w3_def demo_checksum_def)

end
